theory Spec2Isabelle
  imports Main "HOL-Library.Sublist"
begin

section \<open>Session router of the translator bot (src/bot.py)\<close>

text \<open>
  Python \<open>str\<close> values are represented by their UTF-8 encoding, one \<open>char\<close> per byte.
  Equality, concatenation and splitting at the ASCII character \<open>_\<close> commute with that
  encoding, and these are the only string operations of the handlers.
\<close>

subsection \<open>Python built-ins used by the handlers\<close>

text \<open>An exception value: its class name and what \<open>str(e)\<close> gives.\<close>

datatype pyexn = PyExn string string

fun exn_str :: "pyexn \<Rightarrow> string" where
  "exn_str (PyExn cls msg) = msg"

definition IndexError :: pyexn where
  "IndexError = PyExn ''IndexError'' ''list index out of range''"

text \<open>
  What \<open>user_data[user_id]\<close> raises when the key is missing. The handlers read the
  entry this way only after creating it, so the message is never shown.
\<close>

definition KeyError :: pyexn where
  "KeyError = PyExn ''KeyError'' ''user_id''"

text \<open>
  \<open>s.split(sep)\<close> for a one-character separator: the text is cut at every occurrence
  of the separator, empty segments are kept, and the empty text gives one empty segment.
\<close>

fun str_split :: "char \<Rightarrow> string \<Rightarrow> string list" where
  "str_split sep [] = [[]]"
| "str_split sep (c # cs) =
     (if c = sep then [] # str_split sep cs
      else (case str_split sep cs of
              [] \<Rightarrow> [[c]]
            | w # ws \<Rightarrow> (c # w) # ws))"

text \<open>\<open>xs[i]\<close> for a non-negative index: \<open>IndexError\<close> when out of range.\<close>

definition list_index :: "'a list \<Rightarrow> nat \<Rightarrow> pyexn + 'a" where
  "list_index xs i = (if i < length xs then Inr (xs ! i) else Inl IndexError)"

subsection \<open>Data\<close>

text \<open>The value stored per user: \<open>{'target_language': ..., 'mode': ...}\<close>.\<close>

record preference =
  target_language :: string
  mode :: string

datatype inline_button = InlineKeyboardButton string string

datatype reply_markup =
    NoMarkup
  | ReplyKeyboardMarkup "string list list"
  | InlineKeyboardMarkup "inline_button list list"

text \<open>What a handler hands to the chat transport.\<close>

datatype response =
    ReplyText string reply_markup
  | CallbackAnswer
  | EditMessageText string

text \<open>
  The process-wide state: the dictionary \<open>user_data\<close>, and the traces of the three
  effects of the handlers: responses given to the transport, lines written by
  \<open>logger.error\<close>, and the invocations \<open>(source, target, text)\<close> of the translator.
\<close>

record bot_state =
  user_data :: "int \<rightharpoonup> preference"
  outbox :: "response list"
  error_log :: "string list"
  translator_calls :: "(string \<times> string \<times> string) list"

text \<open>
  The translation collaborator (import of \<open>deep_translator\<close>, construction of
  \<open>GoogleTranslator(source, target)\<close> and \<open>translate(text)\<close>) is a parameter: it
  gives the translated text or raises an exception.
\<close>

type_synonym translator = "string \<Rightarrow> string \<Rightarrow> string \<Rightarrow> pyexn + string"

text \<open>A handler returns normally (\<open>None\<close>) or raises, and leaves a state in both cases.\<close>

type_synonym outcome = "pyexn option \<times> bot_state"

definition LANGUAGES :: "(string \<times> string) list" where
  "LANGUAGES =
    [(''uz'', [CHR 0xF0, CHR 0x9F, CHR 0x87, CHR 0xBA, CHR 0xF0, CHR 0x9F, CHR 0x87, CHR 0xBF] @ '' O'' @ [CHR 0x27] @ ''zbekcha''),
     (''en'', [CHR 0xF0, CHR 0x9F, CHR 0x87, CHR 0xAC, CHR 0xF0, CHR 0x9F, CHR 0x87, CHR 0xA7] @ '' English''),
     (''ru'', [CHR 0xF0, CHR 0x9F, CHR 0x87, CHR 0xB7, CHR 0xF0, CHR 0x9F, CHR 0x87, CHR 0xBA] @ '' '' @ [CHR 0xD0, CHR 0xA0, CHR 0xD1, CHR 0x83, CHR 0xD1, CHR 0x81, CHR 0xD1, CHR 0x81, CHR 0xD0, CHR 0xBA, CHR 0xD0, CHR 0xB8, CHR 0xD0, CHR 0xB9]),
     (''tr'', [CHR 0xF0, CHR 0x9F, CHR 0x87, CHR 0xB9, CHR 0xF0, CHR 0x9F, CHR 0x87, CHR 0xB7] @ '' T'' @ [CHR 0xC3, CHR 0xBC] @ ''rk'' @ [CHR 0xC3, CHR 0xA7] @ ''e''),
     (''ar'', [CHR 0xF0, CHR 0x9F, CHR 0x87, CHR 0xB8, CHR 0xF0, CHR 0x9F, CHR 0x87, CHR 0xA6] @ '' '' @ [CHR 0xD8, CHR 0xA7, CHR 0xD9, CHR 0x84, CHR 0xD8, CHR 0xB9, CHR 0xD8, CHR 0xB1, CHR 0xD8, CHR 0xA8, CHR 0xD9, CHR 0x8A, CHR 0xD8, CHR 0xA9]),
     (''es'', [CHR 0xF0, CHR 0x9F, CHR 0x87, CHR 0xAA, CHR 0xF0, CHR 0x9F, CHR 0x87, CHR 0xB8] @ '' Espa'' @ [CHR 0xC3, CHR 0xB1] @ ''ol'')]"

text \<open>The three menu labels of the main keyboard.\<close>

definition label_translate :: string where
  "label_translate = [CHR 0xF0, CHR 0x9F, CHR 0x8C, CHR 0x8D] @ '' Tarjima''"

definition label_settings :: string where
  "label_settings = [CHR 0xE2, CHR 0x9A, CHR 0x99, CHR 0xEF, CHR 0xB8, CHR 0x8F] @ '' Sozlamalar''"

definition label_help :: string where
  "label_help = [CHR 0xE2, CHR 0x84, CHR 0xB9, CHR 0xEF, CHR 0xB8, CHR 0x8F] @ '' Yordam''"

definition welcome_text :: string where
  "welcome_text = [CHR 0x0A, CHR 0xF0, CHR 0x9F, CHR 0xA4, CHR 0x96] @ '' Assalomu aleykum! Men tarjimon botman!'' @ [CHR 0x0A, CHR 0x0A, CHR 0xE2, CHR 0x9C, CHR 0xA8] @ '' Imkoniyatlar:'' @ [CHR 0x0A, CHR 0xE2, CHR 0x80, CHR 0xA2] @ '' '' @ [CHR 0xF0, CHR 0x9F, CHR 0x8C, CHR 0x8D] @ '' Matnlarni tarjima qilish'' @ [CHR 0x0A, CHR 0xE2, CHR 0x80, CHR 0xA2] @ '' '' @ [CHR 0xE2, CHR 0x9A, CHR 0x99, CHR 0xEF, CHR 0xB8, CHR 0x8F] @ '' Tilni tanlash'' @ [CHR 0x0A, CHR 0xE2, CHR 0x80, CHR 0xA2] @ '' '' @ [CHR 0xF0, CHR 0x9F, CHR 0x86, CHR 0x93] @ '' Bepul xizmat'' @ [CHR 0x0A, CHR 0x0A] @ ''Matn yuboring, tarjima qilaman! '' @ [CHR 0xF0, CHR 0x9F, CHR 0x9A, CHR 0x80, CHR 0x0A] @ ''    ''"

definition help_text :: string where
  "help_text = [CHR 0x0A, CHR 0xF0, CHR 0x9F, CHR 0x93, CHR 0x96] @ '' Qo'' @ [CHR 0x27] @ ''llanma:'' @ [CHR 0x0A, CHR 0x0A] @ ''1'' @ [CHR 0xEF, CHR 0xB8, CHR 0x8F, CHR 0xE2, CHR 0x83, CHR 0xA3] @ '' '' @ [CHR 0xF0, CHR 0x9F, CHR 0x8C, CHR 0x8D] @ '' Tarjima - Matn yuboring'' @ [CHR 0x0A] @ ''2'' @ [CHR 0xEF, CHR 0xB8, CHR 0x8F, CHR 0xE2, CHR 0x83, CHR 0xA3] @ '' '' @ [CHR 0xE2, CHR 0x9A, CHR 0x99, CHR 0xEF, CHR 0xB8, CHR 0x8F] @ '' Sozlamalar - Tilni tanlang'' @ [CHR 0x0A] @ ''3'' @ [CHR 0xEF, CHR 0xB8, CHR 0x8F, CHR 0xE2, CHR 0x83, CHR 0xA3] @ '' '' @ [CHR 0xE2, CHR 0x84, CHR 0xB9, CHR 0xEF, CHR 0xB8, CHR 0x8F] @ '' Yordam - Bu xabar'' @ [CHR 0x0A, CHR 0x0A] @ ''Faqat matn yuboring, avtomatik tarjima bo'' @ [CHR 0x27] @ ''ladi! '' @ [CHR 0xF0, CHR 0x9F, CHR 0x98, CHR 0x8A, CHR 0x0A] @ ''    ''"

definition translation_header :: string where
  "translation_header = [CHR 0xF0, CHR 0x9F, CHR 0x8C, CHR 0x8D] @ '' Tarjima:'' @ [CHR 0x0A, CHR 0x0A]"

definition failure_message :: string where
  "failure_message = [CHR 0xE2, CHR 0x9D, CHR 0x8C] @ '' Tarjima xatoligi. Qaytadan urinib ko'' @ [CHR 0x27] @ ''ring.''"

definition settings_prompt :: string where
  "settings_prompt = [CHR 0xE2, CHR 0x9A, CHR 0x99, CHR 0xEF, CHR 0xB8, CHR 0x8F] @ '' Tarjima tilini tanlang:''"

definition translate_prompt :: string where
  "translate_prompt = ''Matn yuboring, tarjima qilaman!''"

definition language_set_text :: "string \<Rightarrow> string" where
  "language_set_text lang_name =
     [CHR 0xE2, CHR 0x9C, CHR 0x85] @ '' Til o'' @ [CHR 0x27] @ ''rnatildi: '' @ lang_name
       @ [CHR 0x0A, CHR 0x0A] @ ''Matn yuboring!''"

subsection \<open>Effects\<close>

text \<open>
  A call of the chat transport (\<open>reply_text\<close>, \<open>answer\<close>, \<open>edit_message_text\<close>)
  appends the response to \<open>outbox\<close>; a failure of the transport itself is not part of
  the model. \<open>logger.error\<close> appends its line to \<open>error_log\<close>.
\<close>

definition reply_text :: "string \<Rightarrow> reply_markup \<Rightarrow> bot_state \<Rightarrow> bot_state" where
  "reply_text txt markup s = s\<lparr>outbox := outbox s @ [ReplyText txt markup]\<rparr>"

definition answer :: "bot_state \<Rightarrow> bot_state" where
  "answer s = s\<lparr>outbox := outbox s @ [CallbackAnswer]\<rparr>"

definition edit_message_text :: "string \<Rightarrow> bot_state \<Rightarrow> bot_state" where
  "edit_message_text txt s = s\<lparr>outbox := outbox s @ [EditMessageText txt]\<rparr>"

definition logger_error :: "string \<Rightarrow> bot_state \<Rightarrow> bot_state" where
  "logger_error line s = s\<lparr>error_log := error_log s @ [line]\<rparr>"

text \<open>
  The statement that \<open>start\<close>, \<open>language_callback\<close> and \<open>handle_message\<close> each
  contain: \<open>if user_id not in user_data: user_data[user_id] = {'target_language': 'en',
  'mode': 'translate'}\<close>.
\<close>

definition create_if_absent :: "int \<Rightarrow> bot_state \<Rightarrow> bot_state" where
  "create_if_absent user_id s =
     (if user_id \<notin> dom (user_data s)
      then s\<lparr>user_data := (user_data s)(user_id \<mapsto>
                \<lparr>target_language = ''en'', mode = ''translate''\<rparr>)\<rparr>
      else s)"

subsection \<open>Keyboards\<close>

definition get_main_keyboard :: reply_markup where
  "get_main_keyboard = ReplyKeyboardMarkup [[label_translate, label_settings], [label_help]]"

text \<open>
  The loop \<open>for i in range(0, len(langs), 2)\<close> of \<open>get_language_keyboard\<close>, with the
  list \<open>keyboard\<close> built so far.
\<close>

function language_rows ::
  "(string \<times> string) list \<Rightarrow> nat \<Rightarrow> inline_button list list \<Rightarrow> inline_button list list" where
  "language_rows langs i keyboard =
     (if i < length langs then
        (let row = [InlineKeyboardButton (snd (langs ! i)) (''lang_'' @ fst (langs ! i))];
             row = (if i + 1 < length langs
                    then row @ [InlineKeyboardButton (snd (langs ! (i + 1)))
                                  (''lang_'' @ fst (langs ! (i + 1)))]
                    else row)
         in language_rows langs (i + 2) (keyboard @ [row]))
      else keyboard)"
  by pat_completeness auto
termination
  by (relation "measure (\<lambda>(langs, i, keyboard). length langs - i)") auto

declare language_rows.simps [simp del]

definition get_language_keyboard :: "inline_button list list" where
  "get_language_keyboard = language_rows LANGUAGES 0 []"

subsection \<open>Handlers\<close>

definition start :: "int \<Rightarrow> bot_state \<Rightarrow> outcome" where
  "start user_id s =
     (None, reply_text welcome_text get_main_keyboard (create_if_absent user_id s))"

text \<open>The body of the \<open>try\<close> block of \<open>translate_text\<close>.\<close>

definition translate_try :: "translator \<Rightarrow> string \<Rightarrow> string \<Rightarrow> bot_state \<Rightarrow> outcome" where
  "translate_try tr target_lang txt s =
     (let s1 = s\<lparr>translator_calls := translator_calls s @ [(''auto'', target_lang, txt)]\<rparr>
      in case tr ''auto'' target_lang txt of
           Inl e \<Rightarrow> (Some e, s1)
         | Inr translated \<Rightarrow> (None, reply_text (translation_header @ translated) NoMarkup s1))"

text \<open>The read \<open>user_data.get(user_id, {}).get('target_language', 'en')\<close>.\<close>

definition stored_target_language :: "bot_state \<Rightarrow> int \<Rightarrow> string" where
  "stored_target_language s user_id =
     (case user_data s user_id of
        None \<Rightarrow> ''en''
      | Some p \<Rightarrow> target_language p)"

definition translate_text :: "translator \<Rightarrow> int \<Rightarrow> string \<Rightarrow> bot_state \<Rightarrow> outcome" where
  "translate_text tr user_id txt s =
     (let target_lang = stored_target_language s user_id
      in case translate_try tr target_lang txt s of
           (None, s') \<Rightarrow> (None, s')
         | (Some e, s') \<Rightarrow>
             (None, reply_text failure_message NoMarkup
                      (logger_error (''Translation error: '' @ exn_str e) s')))"

definition settings :: "int \<Rightarrow> bot_state \<Rightarrow> outcome" where
  "settings user_id s =
     (None, reply_text settings_prompt (InlineKeyboardMarkup get_language_keyboard) s)"

definition language_callback :: "int \<Rightarrow> string \<Rightarrow> bot_state \<Rightarrow> outcome" where
  "language_callback user_id data s =
     (let s1 = answer s
      in case list_index (str_split CHR ''_'' data) 1 of
           Inl e \<Rightarrow> (Some e, s1)
         | Inr lang_code \<Rightarrow>
            (let s2 = create_if_absent user_id s1
             in case user_data s2 user_id of
                  None \<Rightarrow> (Some KeyError, s2)
                | Some p \<Rightarrow>
                   (let s3 = s2\<lparr>user_data := (user_data s2)(user_id \<mapsto>
                                  p\<lparr>target_language := lang_code\<rparr>)\<rparr>;
                        lang_name = (case map_of LANGUAGES lang_code of
                                       None \<Rightarrow> ''Unknown''
                                     | Some n \<Rightarrow> n)
                    in (None, edit_message_text (language_set_text lang_name) s3))))"

definition help_command :: "int \<Rightarrow> bot_state \<Rightarrow> outcome" where
  "help_command user_id s = (None, reply_text help_text NoMarkup s)"

definition handle_message :: "translator \<Rightarrow> int \<Rightarrow> string \<Rightarrow> bot_state \<Rightarrow> outcome" where
  "handle_message tr user_id txt s =
     (let s1 = create_if_absent user_id s
      in if txt = label_translate then (None, reply_text translate_prompt NoMarkup s1)
         else if txt = label_settings then settings user_id s1
         else if txt = label_help then help_command user_id s1
         else translate_text tr user_id txt s1)"

text \<open>
  The pattern \<open>'^lang_'\<close> under which \<open>language_callback\<close> is registered: the callback
  data is matched from its start, so it matches exactly the data that begin with
  \<open>lang_\<close>.
\<close>

definition lang_pattern_matches :: "string \<Rightarrow> bool" where
  "lang_pattern_matches data = prefix ''lang_'' data"

text \<open>The state of a freshly started process: \<open>user_data = {}\<close>, nothing emitted.\<close>

definition initial_state :: bot_state where
  "initial_state = \<lparr>user_data = Map.empty, outbox = [], error_log = [], translator_calls = []\<rparr>"

section \<open>Properties\<close>

subsection \<open>Auxiliary facts\<close>

lemma str_split_not_Nil: "str_split sep s \<noteq> []"
  by (induction s) (auto split: list.splits)

lemma str_split_no_sep: "sep \<notin> set s \<Longrightarrow> str_split sep s = [s]"
  by (induction s) auto


lemma reply_text_fields:
  "user_data (reply_text t m s) = user_data s"
  "outbox (reply_text t m s) = outbox s @ [ReplyText t m]"
  "error_log (reply_text t m s) = error_log s"
  "translator_calls (reply_text t m s) = translator_calls s"
  by (simp_all add: reply_text_def)

lemma answer_fields:
  "user_data (answer s) = user_data s"
  "outbox (answer s) = outbox s @ [CallbackAnswer]"
  "error_log (answer s) = error_log s"
  "translator_calls (answer s) = translator_calls s"
  by (simp_all add: answer_def)

lemma edit_message_text_fields:
  "user_data (edit_message_text t s) = user_data s"
  "outbox (edit_message_text t s) = outbox s @ [EditMessageText t]"
  "error_log (edit_message_text t s) = error_log s"
  "translator_calls (edit_message_text t s) = translator_calls s"
  by (simp_all add: edit_message_text_def)

lemma logger_error_fields:
  "user_data (logger_error l s) = user_data s"
  "outbox (logger_error l s) = outbox s"
  "error_log (logger_error l s) = error_log s @ [l]"
  "translator_calls (logger_error l s) = translator_calls s"
  by (simp_all add: logger_error_def)

lemma create_if_absent_fields:
  "user_data (create_if_absent u s) =
     (if u \<in> dom (user_data s) then user_data s
      else (user_data s)(u \<mapsto> \<lparr>target_language = ''en'', mode = ''translate''\<rparr>))"
  "outbox (create_if_absent u s) = outbox s"
  "error_log (create_if_absent u s) = error_log s"
  "translator_calls (create_if_absent u s) = translator_calls s"
  by (simp_all add: create_if_absent_def)



lemma translate_text_user_data:
  "user_data (snd (translate_text tr u t s)) = user_data s"
  by (simp add: translate_text_def translate_try_def Let_def reply_text_fields
        logger_error_fields split: sum.splits)




lemma handle_message_user_data:
  "user_data (snd (handle_message tr u t s)) = user_data (create_if_absent u s)"
  by (simp add: handle_message_def Let_def settings_def help_command_def
        reply_text_fields translate_text_user_data)

lemma list_index_split_lang:
  "list_index (str_split CHR ''_'' (''lang_'' @ rest)) 1 = Inr (hd (str_split CHR ''_'' rest))"
  using str_split_not_Nil [of "CHR ''_''" rest]
  by (cases "str_split CHR ''_'' rest") (simp_all add: list_index_def)

lemma parse_catalog_code:
  "CHR ''_'' \<notin> set c \<Longrightarrow> list_index (str_split CHR ''_'' (''lang_'' @ c)) 1 = Inr c"
  by (simp add: str_split_no_sep list_index_def)

lemma catalog_codes: "map fst LANGUAGES = [''uz'', ''en'', ''ru'', ''tr'', ''ar'', ''es'']"
  by (simp add: LANGUAGES_def)

lemma catalog_code_no_underscore: "c \<in> set (map fst LANGUAGES) \<Longrightarrow> CHR ''_'' \<notin> set c"
  unfolding catalog_codes by auto

text \<open>What the callback does once the code is parsed.\<close>

lemma language_callback_parsed:
  assumes "list_index (str_split CHR ''_'' data) 1 = Inr c"
  shows "fst (language_callback u data s) = None"
    and "user_data (snd (language_callback u data s)) =
           (user_data s)(u \<mapsto> (case user_data s u of
                None \<Rightarrow> \<lparr>target_language = c, mode = ''translate''\<rparr>
              | Some p \<Rightarrow> p\<lparr>target_language := c\<rparr>))"
    and "outbox (snd (language_callback u data s)) =
           outbox s @ [CallbackAnswer,
             EditMessageText (language_set_text
               (case map_of LANGUAGES c of None \<Rightarrow> ''Unknown'' | Some n \<Rightarrow> n))]"
  using assms
  by (auto simp: language_callback_def Let_def answer_fields create_if_absent_fields
        edit_message_text_fields split: option.splits)

lemma language_callback_unparsed:
  assumes "list_index (str_split CHR ''_'' data) 1 = Inl e"
  shows "language_callback u data s = (Some e, answer s)"
  using assms by (simp add: language_callback_def)


lemma language_callback_ru:
  "user_data (snd (language_callback 7 ''lang_ru'' initial_state)) =
     [7 \<mapsto> \<lparr>target_language = ''ru'', mode = ''translate''\<rparr>]"
proof -
  have parsed: "list_index (str_split CHR ''_'' ''lang_ru'') 1 = Inr ''ru''"
    by (simp add: list_index_def)
  show ?thesis
    by (simp add: language_callback_parsed(2) [OF parsed] initial_state_def)
qed

subsection \<open>Translation of free text\<close>




subsection \<open>Frame of the handlers\<close>

text \<open>
  Claim C8. \<open>start\<close>, \<open>help_command\<close>, \<open>settings\<close> and \<open>handle_message\<close> leave the
  entry of every user other than the sender as it is, and the sender's entry too when
  it exists already: only \<open>language_callback\<close> changes a stored target language.
\<close>

theorem only_language_callback_changes_records:
  assumes "v \<in> dom (user_data s) \<or> v \<noteq> user_id"
  shows "user_data (snd (start user_id s)) v = user_data s v
     \<and> user_data (snd (help_command user_id s)) v = user_data s v
     \<and> user_data (snd (settings user_id s)) v = user_data s v
     \<and> user_data (snd (handle_message tr user_id txt s)) v = user_data s v"
  using assms
  by (auto simp: start_def help_command_def settings_def handle_message_user_data
        reply_text_fields create_if_absent_fields)

theorem only_language_callback_changes_records_witness:
  "((7::int) \<in> dom (user_data (snd (language_callback 7 ''lang_ru'' initial_state))) \<or> (7::int) \<noteq> 7)
   \<and> user_data (snd (start 7 (snd (language_callback 7 ''lang_ru'' initial_state)))) 7
       = Some \<lparr>target_language = ''ru'', mode = ''translate''\<rparr>
   \<and> user_data (snd (help_command 7 (snd (language_callback 7 ''lang_ru'' initial_state)))) 7
       = Some \<lparr>target_language = ''ru'', mode = ''translate''\<rparr>
   \<and> user_data (snd (settings 7 (snd (language_callback 7 ''lang_ru'' initial_state)))) 7
       = Some \<lparr>target_language = ''ru'', mode = ''translate''\<rparr>
   \<and> user_data (snd (handle_message (\<lambda>src tgt t. Inr (tgt @ '': '' @ t)) 7 ''Hello''
          (snd (language_callback 7 ''lang_ru'' initial_state)))) 7
       = Some \<lparr>target_language = ''ru'', mode = ''translate''\<rparr>"
proof -
  let ?s = "snd (language_callback 7 ''lang_ru'' initial_state)"
  have a: "(7::int) \<in> dom (user_data ?s) \<or> (7::int) \<noteq> 7"
    by (simp add: language_callback_ru)
  show ?thesis
    using a only_language_callback_changes_records
      [OF a, of "\<lambda>src tgt t. Inr (tgt @ '': '' @ t)" "''Hello''"]
    by (simp add: language_callback_ru)
qed

subsection \<open>Language selection\<close>

text \<open>
  Claim C5. For every language code \<open>c\<close> of the catalog and every user, the callback
  with the token \<open>"lang_" + c\<close> returns normally and leaves \<open>c\<close> as the user's stored
  target language.
\<close>

theorem catalog_callback_sets_language:
  assumes "c \<in> set (map fst LANGUAGES)"
  shows "fst (language_callback user_id (''lang_'' @ c) s) = None
     \<and> map_option target_language
          (user_data (snd (language_callback user_id (''lang_'' @ c) s)) user_id) = Some c"
proof -
  have parsed: "list_index (str_split CHR ''_'' (''lang_'' @ c)) 1 = Inr c"
    using assms by (intro parse_catalog_code catalog_code_no_underscore)
  have returns: "fst (language_callback user_id (''lang_'' @ c) s) = None"
    by (rule language_callback_parsed(1) [OF parsed])
  have stored: "map_option target_language
      (user_data (snd (language_callback user_id (''lang_'' @ c) s)) user_id) = Some c"
    unfolding language_callback_parsed(2) [OF parsed]
    by (simp split: option.splits)
  from returns stored show ?thesis ..
qed

theorem catalog_callback_sets_language_witness:
  "''tr'' \<in> set (map fst LANGUAGES)
   \<and> fst (language_callback 7 ''lang_tr'' initial_state) = None
   \<and> map_option target_language
        (user_data (snd (language_callback 7 ''lang_tr'' initial_state)) 7) = Some ''tr''"
proof -
  have a: "''tr'' \<in> set (map fst LANGUAGES)"
    by (simp add: LANGUAGES_def)
  show ?thesis
    using a catalog_callback_sets_language [OF a, of 7 initial_state] by simp
qed



text \<open>
  Claim C9. Handling the same callback token twice in a row leaves the same stored
  preferences (so the same target language) as handling it once, and ends the same way.
\<close>

theorem language_callback_idempotent:
  "user_data (snd (language_callback user_id data (snd (language_callback user_id data s))))
     = user_data (snd (language_callback user_id data s))
   \<and> fst (language_callback user_id data (snd (language_callback user_id data s)))
     = fst (language_callback user_id data s)"
proof (cases "list_index (str_split CHR ''_'' data) 1")
  case (Inl e)
  then show ?thesis
    by (simp add: language_callback_unparsed answer_fields)
next
  case (Inr c)
  then show ?thesis
    by (auto simp: language_callback_parsed split: option.splits)
qed

text \<open>
  Claim C10. A token matched by the pattern \<open>'^lang_'\<close> has a second segment: the
  read \<open>split('_')[1]\<close> gives a code, and \<open>language_callback\<close> returns normally.
\<close>

theorem matched_token_parses:
  assumes "lang_pattern_matches data"
  shows "(\<exists>c. list_index (str_split CHR ''_'' data) 1 = Inr c)
     \<and> fst (language_callback user_id data s) = None"
proof -
  from assms obtain rest where data: "data = ''lang_'' @ rest"
    unfolding lang_pattern_matches_def by (auto elim: prefixE)
  have parsed: "list_index (str_split CHR ''_'' data) 1 = Inr (hd (str_split CHR ''_'' rest))"
    unfolding data by (rule list_index_split_lang)
  show ?thesis
    using parsed language_callback_parsed(1) [OF parsed] by blast
qed

theorem matched_token_parses_witness:
  "lang_pattern_matches ''lang_''
   \<and> (\<exists>c. list_index (str_split CHR ''_'' ''lang_'') 1 = Inr c)
   \<and> fst (language_callback 7 ''lang_'' initial_state) = None"
proof -
  have a: "lang_pattern_matches ''lang_''"
    by (simp add: lang_pattern_matches_def)
  show ?thesis
    using a matched_token_parses [OF a, of 7 initial_state] by simp
qed

subsection \<open>The language keyboard\<close>


subsection \<open>Lazy creation of the preference record\<close>

text \<open>
  Claim C2, as stated, fails: for a user without a record, a language callback as the
  first event leaves the selected code and not \<open>en\<close> as target language, and a help
  command as the first event returns without any record for the user.
\<close>

theorem first_event_counterexample:
  "user_data initial_state 42 = None
   \<and> fst (language_callback 42 ''lang_ru'' initial_state) = None
   \<and> map_option target_language
        (user_data (snd (language_callback 42 ''lang_ru'' initial_state)) 42) \<noteq> Some ''en''
   \<and> fst (help_command 42 initial_state) = None
   \<and> user_data (snd (help_command 42 initial_state)) 42 = None"
proof -
  have parsed: "list_index (str_split CHR ''_'' ''lang_ru'') 1 = Inr ''ru''"
    by (simp add: list_index_def)
  show ?thesis
    by (simp add: language_callback_parsed [OF parsed] initial_state_def help_command_def
          reply_text_fields)
qed

text \<open>
  Claim C2, amended. For a user without a record: after \<open>start\<close> or after
  \<open>handle_message\<close> the user has the record with target language \<open>en\<close>; after
  \<open>language_callback\<close> the record holds the code parsed from the token (and there is
  none when the token has no second segment); after \<open>help_command\<close> there is no
  record.
\<close>

theorem first_event_creates_record:
  assumes "user_id \<notin> dom (user_data s)"
  shows "user_data (snd (start user_id s)) user_id =
           Some \<lparr>target_language = ''en'', mode = ''translate''\<rparr>
     \<and> user_data (snd (handle_message tr user_id txt s)) user_id =
           Some \<lparr>target_language = ''en'', mode = ''translate''\<rparr>
     \<and> user_data (snd (language_callback user_id data s)) user_id =
          (case list_index (str_split CHR ''_'' data) 1 of
             Inl e \<Rightarrow> None
           | Inr c \<Rightarrow> Some \<lparr>target_language = c, mode = ''translate''\<rparr>)
     \<and> user_data (snd (help_command user_id s)) user_id = None"
proof -
  from assms have absent: "user_data s user_id = None"
    by (simp add: domIff)
  have st: "user_data (snd (start user_id s)) user_id =
           Some \<lparr>target_language = ''en'', mode = ''translate''\<rparr>"
    using assms by (simp add: start_def reply_text_fields create_if_absent_fields)
  have hm: "user_data (snd (handle_message tr user_id txt s)) user_id =
           Some \<lparr>target_language = ''en'', mode = ''translate''\<rparr>"
    using assms by (simp add: handle_message_user_data create_if_absent_fields)
  have cb: "user_data (snd (language_callback user_id data s)) user_id =
          (case list_index (str_split CHR ''_'' data) 1 of
             Inl e \<Rightarrow> None
           | Inr c \<Rightarrow> Some \<lparr>target_language = c, mode = ''translate''\<rparr>)"
  proof (cases "list_index (str_split CHR ''_'' data) 1")
    case (Inl e)
    then show ?thesis
      by (simp add: language_callback_unparsed answer_fields absent)
  next
    case (Inr c)
    then show ?thesis
      by (simp add: language_callback_parsed(2) absent)
  qed
  have hp: "user_data (snd (help_command user_id s)) user_id = None"
    by (simp add: help_command_def reply_text_fields absent)
  from st hm cb hp show ?thesis by blast
qed

theorem first_event_creates_record_witness:
  "(42::int) \<notin> dom (user_data initial_state)
   \<and> user_data (snd (start 42 initial_state)) 42 =
         Some \<lparr>target_language = ''en'', mode = ''translate''\<rparr>
   \<and> user_data (snd (handle_message (\<lambda>src tgt t. Inr (tgt @ '': '' @ t)) 42 ''Salom''
         initial_state)) 42 = Some \<lparr>target_language = ''en'', mode = ''translate''\<rparr>
   \<and> user_data (snd (language_callback 42 ''lang_es'' initial_state)) 42 =
         Some \<lparr>target_language = ''es'', mode = ''translate''\<rparr>
   \<and> user_data (snd (help_command 42 initial_state)) 42 = None"
proof -
  have a: "(42::int) \<notin> dom (user_data initial_state)"
    by (simp add: initial_state_def)
  show ?thesis
    using a first_event_creates_record
      [OF a, of "\<lambda>src tgt t. Inr (tgt @ '': '' @ t)" "''Salom''" "''lang_es''"]
    by (simp add: list_index_def)
qed




end
